theory Spec2Isabelle
  imports Main
begin

text \<open>
  \<open>acme_tiny.py\<close> obtains a certificate from an ACME authority: it registers the
  account, proves the control of each domain of the certificate request with a file
  served over HTTP, and asks for the certificate. This theory follows the function
  \<open>get_crt\<close> from the parsing of the request on. The functions are pure: the servers,
  \<open>openssl\<close>, the file system and the library codecs are an environment \<open>world\<close>
  that is passed in, a run threads a \<open>state\<close>, and an exception is a value of type
  \<open>error\<close>.
\<close>

section \<open>Strings\<close>

text \<open>
  A Python \<open>str\<close> is a list of characters, one \<open>char\<close> for each code point; a
  \<open>bytes\<close> object is a list of characters too, one for each byte. Text is covered
  up to code point 255. The codec between the two (\<open>bytes.decode('utf8')\<close>) is a
  parameter of the environment, see \<open>utf8_decode\<close> below.
\<close>

definition in_range :: "char \<Rightarrow> char \<Rightarrow> char \<Rightarrow> bool" where
  "in_range lo hi c = ((of_char lo :: nat) \<le> of_char c \<and> (of_char c :: nat) \<le> of_char hi)"

text \<open>
  The characters Python takes as whitespace (\<open>str.isspace\<close>, the class \<open>\s\<close> of
  \<open>re\<close> on a \<open>str\<close> pattern, the characters \<open>str.strip()\<close> removes): tab, line
  feed, vertical tab, form feed, carriage return, the separators 28 to 31, space, and
  in Latin-1 the next-line control 133 and the no-break space 160.
\<close>

definition isspace :: "char \<Rightarrow> bool" where
  "isspace c = ((of_char c :: nat) \<in> {9, 10, 11, 12, 13, 28, 29, 30, 31, 32, 133, 160})"

definition newline :: char where
  "newline = CHR 0x0A"

text \<open>\<open>s.strip()\<close>\<close>

definition strip :: "string \<Rightarrow> string" where
  "strip s = rev (dropWhile isspace (rev (dropWhile isspace s)))"

text \<open>\<open>s.startswith(p)\<close>\<close>

definition startswith :: "string \<Rightarrow> string \<Rightarrow> bool" where
  "startswith p s = (take (length p) s = p)"

text \<open>The rest of \<open>s\<close> after the literal \<open>p\<close>, when \<open>s\<close> starts with it.\<close>

definition after_prefix :: "string \<Rightarrow> string \<Rightarrow> string option" where
  "after_prefix p s = (if startswith p s then Some (drop (length p) s) else None)"

text \<open>\<open>sep.join(xs)\<close>\<close>

fun join :: "string \<Rightarrow> string list \<Rightarrow> string" where
  "join sep [] = []"
| "join sep [x] = x"
| "join sep (x # y # ys) = x @ sep @ join sep (y # ys)"

text \<open>
  \<open>s.split(sep)\<close> for a separator that is not empty: the pieces between the
  occurrences of \<open>sep\<close>, found from left to right without overlap. \<open>acc\<close> holds the
  current piece, reversed.
\<close>

function split_from :: "string \<Rightarrow> string \<Rightarrow> string \<Rightarrow> string list" where
  "split_from sep acc s =
     (if s = [] then [rev acc]
      else if sep \<noteq> [] \<and> startswith sep s then rev acc # split_from sep [] (drop (length sep) s)
      else split_from sep (hd s # acc) (tl s))"
  by pat_completeness auto
termination
  by (relation "measure (\<lambda>(sep, acc, s). length s)") auto

definition split :: "string \<Rightarrow> string \<Rightarrow> string list" where
  "split sep s = split_from sep [] s"

section \<open>Token sanitization\<close>

text \<open>
  \<^verbatim>\<open>token = re.sub(r"[^A-Za-z0-9_\-]", "_", challenge['token'])\<close>

  The pattern matches one character, so every character outside the class is
  replaced on its own.
\<close>

definition token_char :: "char \<Rightarrow> bool" where
  "token_char c =
     (in_range CHR ''A'' CHR ''Z'' c \<or> in_range CHR ''a'' CHR ''z'' c \<or> in_range CHR ''0'' CHR ''9'' c
      \<or> c = CHR ''_'' \<or> c = CHR ''-'')"

definition sanitize_token :: "string \<Rightarrow> string" where
  "sanitize_token t = map (\<lambda>c. if token_char c then c else CHR ''_'') t"

section \<open>Domains of the certificate request\<close>

text \<open>
  \<^verbatim>\<open>common_name = re.search(r"Subject:.*? CN ?= ?([^\s,;/]+)", csr_dump)\<close>

  The pattern is matched by hand, piece by piece. \<open>cn_char\<close> is the class
  \<open>[^\s,;/]\<close>.
\<close>

definition cn_char :: "char \<Rightarrow> bool" where
  "cn_char c = (\<not> isspace c \<and> c \<noteq> CHR '','' \<and> c \<noteq> CHR '';'' \<and> c \<noteq> CHR ''/'')"

text \<open>
  The piece \<open> ?\<close>: one space is taken when there is one. Giving the space back
  never helps, since the piece that follows (\<open>=\<close>, or a character that is not
  whitespace) cannot match a space.
\<close>

fun opt_space :: "string \<Rightarrow> string" where
  "opt_space [] = []"
| "opt_space (c # r) = (if c = CHR '' '' then r else c # r)"

text \<open>
  The tail \<open> CN ?= ?([^\s,;/]+)\<close> at the start of \<open>s\<close>; the result is group 1, the
  longest run of \<open>cn_char\<close> characters, which must not be empty.
\<close>

definition match_cn :: "string \<Rightarrow> string option" where
  "match_cn s =
     (case after_prefix '' CN'' s of
        None \<Rightarrow> None
      | Some s1 \<Rightarrow>
          (case after_prefix ''='' (opt_space s1) of
             None \<Rightarrow> None
           | Some s2 \<Rightarrow>
               (let name = takeWhile cn_char (opt_space s2)
                in if name = [] then None else Some name)))"

text \<open>
  \<open>.*?\<close> followed by the tail: the tail is tried after no character, after one,
  and so on, over characters other than the line feed (\<open>.\<close> without \<open>DOTALL\<close>).
\<close>

fun match_subject :: "string \<Rightarrow> string option" where
  "match_subject [] = match_cn []"
| "match_subject (c # r) =
     (case match_cn (c # r) of
        Some name \<Rightarrow> Some name
      | None \<Rightarrow> if c = newline then None else match_subject r)"

text \<open>\<open>re.search\<close>: the first position of the text where the pattern matches.\<close>

fun search_common_name :: "string \<Rightarrow> string option" where
  "search_common_name [] = None"
| "search_common_name (c # r) =
     (case (case after_prefix ''Subject:'' (c # r) of
              None \<Rightarrow> None
            | Some t \<Rightarrow> match_subject t) of
        Some name \<Rightarrow> Some name
      | None \<Rightarrow> search_common_name r)"

text \<open>
  \<^verbatim>\<open>subject_alt_names = re.search(r"X509v3 Subject Alternative Name: \n +([^\n]+)\n", csr_dump, re.MULTILINE|re.DOTALL)\<close>

  After the literal come the spaces of \<open> +\<close> (as many as there are), then group 1,
  the rest of the line, then the line feed that ends it. When nothing but spaces stands
  on the line, \<open> +\<close> gives its last space back to the group, which needs two spaces
  at least. The flags change nothing: the pattern has no \<open>^\<close>, \<open>$\<close> or \<open>.\<close>.
\<close>

definition san_literal :: string where
  "san_literal = ''X509v3 Subject Alternative Name: '' @ [newline]"

definition match_san :: "string \<Rightarrow> string option" where
  "match_san s =
     (case after_prefix san_literal s of
        None \<Rightarrow> None
      | Some t \<Rightarrow>
          (let spaces = takeWhile (\<lambda>c. c = CHR '' '') t;
               rest = dropWhile (\<lambda>c. c = CHR '' '') t;
               line = takeWhile (\<lambda>c. c \<noteq> newline) rest;
               ending = dropWhile (\<lambda>c. c \<noteq> newline) rest
           in if spaces = [] \<or> ending = [] then None
              else if line \<noteq> [] then Some line
              else if 2 \<le> length spaces then Some '' ''
              else None))"

fun search_alt_names :: "string \<Rightarrow> string option" where
  "search_alt_names [] = None"
| "search_alt_names (c # r) =
     (case match_san (c # r) of
        Some line \<Rightarrow> Some line
      | None \<Rightarrow> search_alt_names r)"

text \<open>
  \<open>domains\<close> is a Python set. It is kept as a list without repetition, in the order
  of insertion; \<open>add\<close> is \<open>set.add\<close>.
\<close>

definition add :: "string \<Rightarrow> string list \<Rightarrow> string list" where
  "add x xs = (if x \<in> set xs then xs else xs @ [x])"

text \<open>
  \<^verbatim>\<open>
  for san in subject_alt_names.group(1).split(", "):
      if san.startswith("DNS:"):
          domains.add(san[4:])
  \<close>
\<close>

fun add_alt_names :: "string list \<Rightarrow> string list \<Rightarrow> string list" where
  "add_alt_names [] domains = domains"
| "add_alt_names (san # sans) domains =
     add_alt_names sans (if startswith ''DNS:'' san then add (drop 4 san) domains else domains)"

text \<open>Lines 76 to 84 of \<open>get_crt\<close>: the domains of the text dump of the request.\<close>

definition find_domains :: "string \<Rightarrow> string list" where
  "find_domains csr_dump =
     (let domains = [];
          domains = (case search_common_name csr_dump of
                       None \<Rightarrow> domains
                     | Some name \<Rightarrow> add name domains)
      in case search_alt_names csr_dump of
           None \<Rightarrow> domains
         | Some line \<Rightarrow> add_alt_names (split '', '' line) domains)"

text \<open>A request as \<open>openssl req -noout -text\<close> prints it (shortened).\<close>

definition example_csr :: string where
  "example_csr =
     ''Certificate Request:'' @ [newline] @
     ''    Data:'' @ [newline] @
     ''        Subject: CN = example.com'' @ [newline] @
     ''        Requested Extensions:'' @ [newline] @
     ''            X509v3 Subject Alternative Name: '' @ [newline] @
     ''                DNS:example.com, DNS:www.example.com'' @ [newline] @
     ''    Signature Algorithm: sha256WithRSAEncryption'' @ [newline]"

section \<open>Base64 and the PEM frame\<close>

definition b64_alphabet :: string where
  "b64_alphabet = ''ABCDEFGHIJKLMNOPQRSTUVWXYZabcdefghijklmnopqrstuvwxyz0123456789+/''"

definition b64_digit :: "nat \<Rightarrow> char" where
  "b64_digit i = b64_alphabet ! (i mod 64)"

text \<open>\<open>base64.b64encode\<close>: three bytes give four digits, the last group is padded.\<close>

fun b64encode :: "string \<Rightarrow> string" where
  "b64encode [] = []"
| "b64encode [a] =
     (let n = of_char a * 65536
      in [b64_digit (n div 262144), b64_digit (n div 4096), CHR ''='', CHR ''=''])"
| "b64encode [a, b] =
     (let n = of_char a * 65536 + of_char b * 256
      in [b64_digit (n div 262144), b64_digit (n div 4096), b64_digit (n div 64), CHR ''=''])"
| "b64encode (a # b # c # r) =
     (let n = of_char a * 65536 + of_char b * 256 + of_char c
      in [b64_digit (n div 262144), b64_digit (n div 4096), b64_digit (n div 64), b64_digit n]
         @ b64encode r)"

text \<open>
  \<^verbatim>\<open>
  def _b64(b):
      return base64.urlsafe_b64encode(b).decode('utf8').replace("=", "")
  \<close>
  The URL-safe alphabet has \<open>-\<close> for \<open>+\<close> and \<open>_\<close> for \<open>/\<close>.
\<close>

definition urlsafe_b64encode :: "string \<Rightarrow> string" where
  "urlsafe_b64encode b =
     map (\<lambda>c. if c = CHR ''+'' then CHR ''-'' else if c = CHR ''/'' then CHR ''_'' else c) (b64encode b)"

definition b64 :: "string \<Rightarrow> string" where
  "b64 b = filter (\<lambda>c. c \<noteq> CHR ''='') (urlsafe_b64encode b)"

text \<open>
  \<open>textwrap.wrap(text, width)\<close> on a text without whitespace and without hyphen, as
  the output of \<open>b64encode\<close> is: the text is one long word, broken every \<open>width\<close>
  characters; the empty text has no line.
\<close>

function wrap :: "string \<Rightarrow> nat \<Rightarrow> string list" where
  "wrap text width =
     (if text = [] \<or> width = 0 then [] else take width text # wrap (drop width text) width)"
  by pat_completeness auto
termination
  by (relation "measure (\<lambda>(text, width). length text)") auto

text \<open>
  \<^verbatim>\<open>
  """-----BEGIN CERTIFICATE-----\n{0}\n-----END CERTIFICATE-----\n""".format(
      "\n".join(textwrap.wrap(base64.b64encode(cert).decode('utf8'), 64)))
  \<close>
\<close>

definition pem :: "string \<Rightarrow> string" where
  "pem cert =
     ''-----BEGIN CERTIFICATE-----'' @ [newline]
     @ join [newline] (wrap (b64encode cert) 64)
     @ [newline] @ ''-----END CERTIFICATE-----'' @ [newline]"

section \<open>Headers of a response\<close>

type_synonym headers = "(string \<times> string) list"

text \<open>Header names are compared without regard to the case of the letters A to Z.\<close>

definition lower :: "string \<Rightarrow> string" where
  "lower s = map (\<lambda>c. if in_range CHR ''A'' CHR ''Z'' c then char_of (of_char c + (32::nat)) else c) s"

text \<open>\<open>headers.get_all(name)\<close>: every value of the header, or \<open>None\<close> when there is none.\<close>

definition get_all :: "string \<Rightarrow> headers \<Rightarrow> string list option" where
  "get_all name hs =
     (let values = map snd (filter (\<lambda>(k, v). lower k = lower name) hs)
      in if values = [] then None else Some values)"

text \<open>\<open>headers.get(name)\<close>: the first value of the header, or \<open>None\<close>.\<close>

definition get_header :: "string \<Rightarrow> headers \<Rightarrow> string option" where
  "get_header name hs = map_option snd (find (\<lambda>(k, v). lower k = lower name) hs)"

text \<open>
  \<open>response.getheader(name)\<close> of \<open>http.client\<close>: the values of the header, joined
  by a comma and a space, or \<open>None\<close>.
\<close>

definition getheader :: "string \<Rightarrow> headers \<Rightarrow> string option" where
  "getheader name hs = map_option (join '', '') (get_all name hs)"

text \<open>
  \<^verbatim>\<open>m = re.search(r'^\s*<([^>]*)>.*;\s*rel="up"', header)\<close>

  \<open>up_tail\<close> is the part \<open>.*;\s*rel="up"\<close> after the closing bracket: some \<open>;\<close>
  on the same line, followed by whitespace and the literal.
\<close>

fun up_tail :: "string \<Rightarrow> bool" where
  "up_tail [] = False"
| "up_tail (c # r) =
     ((c = CHR '';'' \<and> startswith (''rel='' @ [CHR 0x22] @ ''up'' @ [CHR 0x22]) (dropWhile isspace r))
      \<or> (c \<noteq> newline \<and> up_tail r))"

text \<open>The address of group 1, when the header matches.\<close>

definition link_up :: "string \<Rightarrow> string option" where
  "link_up header =
     (case dropWhile isspace header of
        [] \<Rightarrow> None
      | c # r \<Rightarrow>
          if c \<noteq> CHR ''<'' then None
          else (case dropWhile (\<lambda>x. x \<noteq> CHR ''>'') r of
                  [] \<Rightarrow> None
                | _ # tail \<Rightarrow> if up_tail tail then Some (takeWhile (\<lambda>x. x \<noteq> CHR ''>'') r) else None))"

section \<open>The environment of a run\<close>

text \<open>A JSON value, as \<open>json.loads\<close> returns it and \<open>json.dumps\<close> takes it.\<close>

datatype json =
    JNull
  | JBool bool
  | JNum int
  | JStr string
  | JArr "json list"
  | JObj "(string \<times> json) list"

datatype request =
    GET string
  | POST string string
  | HEAD string string

text \<open>
  What one exchange with a server gives: a response that \<open>urlopen\<close> returns; an
  \<open>HTTPError\<close> (a response with a failure status: code, body and headers can be read
  from the exception); a \<open>URLError\<close> with its reason (no response); another
  \<open>IOError\<close>, such as the timeout of a socket while the response is read; or an
  exception of \<open>http.client\<close> that is no \<open>IOError\<close>.
\<close>

datatype http_result =
    Response int string headers
  | HTTPError int string headers
  | URLError string
  | OtherIOError
  | HTTPException

text \<open>
  The exceptions of a run. The four \<open>ValueError\<close>s the program raises itself carry
  the values their messages are formatted from:
  \<^item> \<open>ValueError_signed template code result\<close>, line 71;
  \<^item> \<open>ValueError_download wellknown_path wellknown_url\<close>, line 126;
  \<^item> \<open>ValueError_checking code body\<close>, line 139;
  \<^item> \<open>ValueError_challenge domain challenge_status\<close>, line 148.
\<close>

datatype error =
    ValueError_signed string "int option" string
  | ValueError_download string string
  | ValueError_checking int json
  | ValueError_challenge string json
  | IOError_openssl
  | IOError_open string
  | FileNotFoundError string
  | Raised_HTTPError int
  | Raised_URLError string
  | Raised_IOError
  | Raised_HTTPException
  | UnboundLocalError
  | UnicodeDecodeError
  | JSONDecodeError
  | KeyError string
  | IndexError
  | TypeError
  | AttributeError
  | BadUrl

text \<open>
  Everything outside the program is a parameter:
  \<^item> \<open>net n r\<close> is the outcome of request \<open>r\<close> when it is the \<open>n\<close>-th exchange of the
    run;
  \<^item> the three uses of \<open>openssl\<close>: the text dump of the request, its DER form, and the
    signature of a text with the account key (\<open>None\<close>: the exit status is not 0);
  \<^item> \<open>can_open path\<close>: whether \<open>open(path, "w")\<close> succeeds;
  \<^item> \<open>utf8_decode\<close>, \<open>json_loads\<close> (\<open>None\<close>: the call raises) and \<open>json_dumps\<close>;
  \<^item> \<open>str_hash\<close>: the hash values that order the iteration over a set of strings.
\<close>

record world =
  net :: "nat \<Rightarrow> request \<Rightarrow> http_result"
  openssl_req_text :: "string option"
  openssl_req_der :: "string option"
  openssl_dgst_sign :: "string \<Rightarrow> string option"
  can_open :: "string \<Rightarrow> bool"
  utf8_decode :: "string \<Rightarrow> string option"
  json_loads :: "string \<Rightarrow> json option"
  json_dumps :: "json \<Rightarrow> string"
  str_hash :: "string \<Rightarrow> nat"

text \<open>The arguments of \<open>get_crt\<close>, and the thumbprint of the account key (line 47).\<close>

record config =
  acme_dir :: string
  account_email :: "string option"
  CA :: string
  chain :: bool
  thumbprint :: string

datatype event =
    Info string
  | Sleep nat
  | Sent request
  | Signed string
  | Wrote string string
  | Removed string

text \<open>
  The state of a run: the variable \<open>header\<close> of \<open>get_crt\<close> (lines 40 to 45, read by
  every signed request), the number of exchanges so far, the files of the challenge
  directory, and what the run has done, in order.
\<close>

record state =
  header :: json
  tick :: nat
  files :: "string \<rightharpoonup> string"
  trace :: "event list"

type_synonym 'a result = "(error + 'a) \<times> state"

text \<open>Sequencing: an exception ends the computation, with the state it was raised in.\<close>

definition bind :: "'a result \<Rightarrow> ('a \<Rightarrow> state \<Rightarrow> 'b result) \<Rightarrow> 'b result" where
  "bind r f = (case r of (Inl e, st) \<Rightarrow> (Inl e, st) | (Inr x, st) \<Rightarrow> f x st)"

definition emit :: "event \<Rightarrow> state \<Rightarrow> state" where
  "emit ev st = st\<lparr>trace := trace st @ [ev]\<rparr>"

text \<open>\<open>log.info(message)\<close>\<close>

definition log_info :: "string \<Rightarrow> state \<Rightarrow> state" where
  "log_info message st = emit (Info message) st"

text \<open>One exchange: the request is recorded and the environment gives its outcome.\<close>

definition exchange :: "world \<Rightarrow> request \<Rightarrow> state \<Rightarrow> http_result \<times> state" where
  "exchange w r st = (net w (tick st) r, (emit (Sent r) st)\<lparr>tick := Suc (tick st)\<rparr>)"

text \<open>
  \<open>urlopen\<close>: a response is returned, any other outcome is raised as an exception.
\<close>

fun returned :: "http_result \<Rightarrow> error + (int \<times> string \<times> headers)" where
  "returned (Response code body hs) = Inr (code, body, hs)"
| "returned (HTTPError code body hs) = Inl (Raised_HTTPError code)"
| "returned (URLError reason) = Inl (Raised_URLError reason)"
| "returned OtherIOError = Inl Raised_IOError"
| "returned HTTPException = Inl Raised_HTTPException"

definition urlopen :: "world \<Rightarrow> request \<Rightarrow> state \<Rightarrow> (int \<times> string \<times> headers) result" where
  "urlopen w r st = (case exchange w r st of (outcome, st1) \<Rightarrow> (returned outcome, st1))"

text \<open>
  \<^verbatim>\<open>
  with open(wellknown_path, "w") as wellknown_file:
      wellknown_file.write(keyauthorization)
  \<close>
\<close>

definition write_file :: "world \<Rightarrow> string \<Rightarrow> string \<Rightarrow> state \<Rightarrow> unit result" where
  "write_file w path content st =
     (if can_open w path
      then (Inr (), (emit (Wrote path content) st)\<lparr>files := (files st)(path \<mapsto> content)\<rparr>)
      else (Inl (IOError_open path), st))"

text \<open>\<open>os.remove(path)\<close>: a file that is not there raises.\<close>

definition os_remove :: "string \<Rightarrow> state \<Rightarrow> unit result" where
  "os_remove path st =
     (if path \<in> dom (files st)
      then (Inr (), (emit (Removed path) st)\<lparr>files := (files st)(path := None)\<rparr>)
      else (Inl (FileNotFoundError path), st))"

text \<open>\<open>d[key]\<close> for a string key, on a value read from JSON.\<close>

fun getitem :: "json \<Rightarrow> string \<Rightarrow> error + json" where
  "getitem (JObj items) key = (case map_of items key of None \<Rightarrow> Inl (KeyError key) | Some v \<Rightarrow> Inr v)"
| "getitem v key = Inl TypeError"

text \<open>\<open>d[key] = v\<close>: the value of a key that is there is replaced, a new key comes last.\<close>

fun setitem :: "json \<Rightarrow> string \<Rightarrow> json \<Rightarrow> error + json" where
  "setitem (JObj items) key v =
     Inr (JObj (if key \<in> fst ` set items
                then map (\<lambda>(k, x). if k = key then (k, v) else (k, x)) items
                else items @ [(key, v)]))"
| "setitem d key v = Inl TypeError"

text \<open>
  \<open>copy.deepcopy\<close>: values have no identity here, so the copy is the value; changing
  the copy leaves the value it was made from as it is.
\<close>

definition deepcopy :: "json \<Rightarrow> json" where
  "deepcopy v = v"

text \<open>\<open>json.loads(b.decode('utf8'))\<close>\<close>

definition loads_utf8 :: "world \<Rightarrow> string \<Rightarrow> error + json" where
  "loads_utf8 w b =
     (case utf8_decode w b of
        None \<Rightarrow> Inl UnicodeDecodeError
      | Some text \<Rightarrow> (case json_loads w text of None \<Rightarrow> Inl JSONDecodeError | Some v \<Rightarrow> Inr v))"

section \<open>Signed requests\<close>

text \<open>
  \<^verbatim>\<open>protected["nonce"] = urlopen(_request(CA + "/directory")).info().get('Replay-Nonce')\<close>

  The right-hand side: a header that is missing gives \<open>None\<close>.
\<close>

definition fetch_nonce :: "world \<Rightarrow> config \<Rightarrow> state \<Rightarrow> json result" where
  "fetch_nonce w cfg st =
     bind (urlopen w (GET (CA cfg @ ''/directory'')) st)
       (\<lambda>(code, body, hs) st1.
          (Inr (case get_header ''Replay-Nonce'' hs of None \<Rightarrow> JNull | Some nonce \<Rightarrow> JStr nonce), st1))"

text \<open>\<open>_openssl("dgst", ["-sha256", "-sign", account_key], communicate=text)\<close>\<close>

definition openssl_sign :: "world \<Rightarrow> string \<Rightarrow> state \<Rightarrow> string result" where
  "openssl_sign w text st =
     (case openssl_dgst_sign w text of
        None \<Rightarrow> (Inl IOError_openssl, emit (Signed text) st)
      | Some signature \<Rightarrow> (Inr signature, emit (Signed text) st))"

text \<open>
  Lines 51 to 58: the body of the request. The nonce goes into the copy of the header;
  \<open>.encode('utf8')\<close> is applied to ASCII text only (the output of \<open>json.dumps\<close> and of
  \<open>_b64\<close>) and leaves it as it is.
\<close>

definition signed_request :: "world \<Rightarrow> config \<Rightarrow> json \<Rightarrow> state \<Rightarrow> json result" where
  "signed_request w cfg payload st =
     (let payload64 = b64 (json_dumps w payload);
          protected = deepcopy (header st)
      in bind (fetch_nonce w cfg st)
           (\<lambda>nonce st1.
              case setitem protected ''nonce'' nonce of
                Inl e \<Rightarrow> (Inl e, st1)
              | Inr protected \<Rightarrow>
                  (let protected64 = b64 (json_dumps w protected)
                   in bind (openssl_sign w (protected64 @ ''.'' @ payload64) st1)
                        (\<lambda>signature st2.
                           (Inr (JObj [(''header'', header st2),
                                       (''protected'', JStr protected64),
                                       (''payload'', JStr payload64),
                                       (''signature'', JStr (b64 signature))]), st2)))))"

text \<open>
  Lines 59 to 71, after the exchange. \<open>code\<close>, \<open>result\<close> and \<open>headers\<close> come from
  the response or from the \<open>HTTPError\<close>; a \<open>URLError\<close> has no \<open>code\<close>, so the code
  is \<open>None\<close> and \<open>result\<close> is the text of the reason; any other exception is not
  handled, and the \<open>finally\<close> block reads \<open>code\<close> before it was assigned. \<open>return_codes\<close> is the
  dictionary from codes to messages (\<open>None\<close>: no message).
\<close>

definition classify ::
  "(int \<times> string option) list \<Rightarrow> string \<Rightarrow> int option \<Rightarrow> string \<Rightarrow> headers \<Rightarrow> state
   \<Rightarrow> (string \<times> headers) result" where
  "classify return_codes error_message code result hs st =
     (case (case code of None \<Rightarrow> None | Some c \<Rightarrow> map_of return_codes c) of
        None \<Rightarrow> (Inl (ValueError_signed error_message code result), st)
      | Some message \<Rightarrow>
          (Inr (result, hs), (case message of None \<Rightarrow> st | Some m \<Rightarrow> log_info m st)))"

fun classify_outcome ::
  "(int \<times> string option) list \<Rightarrow> string \<Rightarrow> http_result \<Rightarrow> state \<Rightarrow> (string \<times> headers) result" where
  "classify_outcome return_codes error_message (Response code result hs) st =
     classify return_codes error_message (Some code) result hs st"
| "classify_outcome return_codes error_message (HTTPError code result hs) st =
     classify return_codes error_message (Some code) result hs st"
| "classify_outcome return_codes error_message (URLError reason) st =
     classify return_codes error_message None reason [] st"
| "classify_outcome return_codes error_message OtherIOError st = (Inl UnboundLocalError, st)"
| "classify_outcome return_codes error_message HTTPException st = (Inl UnboundLocalError, st)"

text \<open>\<open>_send_signed_request(url, payload, return_codes, error_message)\<close>\<close>

definition send_signed_request ::
  "world \<Rightarrow> config \<Rightarrow> string \<Rightarrow> json \<Rightarrow> (int \<times> string option) list \<Rightarrow> string \<Rightarrow> state
   \<Rightarrow> (string \<times> headers) result" where
  "send_signed_request w cfg url payload return_codes error_message st =
     bind (signed_request w cfg payload st)
       (\<lambda>request st1.
          case exchange w (POST url (json_dumps w request)) st1 of
            (outcome, st2) \<Rightarrow> classify_outcome return_codes error_message outcome st2)"

section \<open>Verification of a domain\<close>

text \<open>\<open>for c in v\<close> on a value read from JSON: a dictionary gives its keys, a string its characters.\<close>

fun iterate :: "json \<Rightarrow> error + json list" where
  "iterate (JArr xs) = Inr xs"
| "iterate (JObj items) = Inr (map (\<lambda>(k, v). JStr k) items)"
| "iterate (JStr s) = Inr (map (\<lambda>c. JStr [c]) s)"
| "iterate v = Inl TypeError"

text \<open>\<open>[c for c in cs if c['type'] == "http-01"]\<close>: the first element that cannot be indexed raises.\<close>

fun http01 :: "json list \<Rightarrow> error + json list" where
  "http01 [] = Inr []"
| "http01 (c # cs) =
     (case getitem c ''type'' of
        Inl e \<Rightarrow> Inl e
      | Inr t \<Rightarrow>
          (case http01 cs of
             Inl e \<Rightarrow> Inl e
           | Inr r \<Rightarrow> Inr (if t = JStr ''http-01'' then c # r else r)))"

text \<open>
  \<^verbatim>\<open>challenge = [c for c in json.loads(result.decode('utf8'))['challenges'] if c['type'] == "http-01"][0]\<close>
\<close>

definition select_challenge :: "world \<Rightarrow> string \<Rightarrow> error + json" where
  "select_challenge w result =
     (case loads_utf8 w result of
        Inl e \<Rightarrow> Inl e
      | Inr authz \<Rightarrow>
          (case getitem authz ''challenges'' of
             Inl e \<Rightarrow> Inl e
           | Inr challenges \<Rightarrow>
               (case iterate challenges of
                  Inl e \<Rightarrow> Inl e
                | Inr cs \<Rightarrow>
                    (case http01 cs of
                       Inl e \<Rightarrow> Inl e
                     | Inr [] \<Rightarrow> Inl IndexError
                     | Inr (c # r) \<Rightarrow> Inr c))))"

text \<open>Line 112: \<open>re.sub\<close> takes a string only.\<close>

definition challenge_token :: "json \<Rightarrow> error + string" where
  "challenge_token challenge =
     (case getitem challenge ''token'' of
        Inl e \<Rightarrow> Inl e
      | Inr (JStr t) \<Rightarrow> Inr (sanitize_token t)
      | Inr v \<Rightarrow> Inl TypeError)"

text \<open>
  \<open>challenge['uri']\<close>, as an address to send a request to. What \<open>urllib\<close> does with
  an address that is not a string depends on the value and is not followed here.
\<close>

definition challenge_uri :: "json \<Rightarrow> error + string" where
  "challenge_uri challenge =
     (case getitem challenge ''uri'' of
        Inl e \<Rightarrow> Inl e
      | Inr (JStr u) \<Rightarrow> Inr u
      | Inr v \<Rightarrow> Inl BadUrl)"

text \<open>\<open>os.path.join(a, b)\<close>\<close>

definition path_join :: "string \<Rightarrow> string \<Rightarrow> string" where
  "path_join a b =
     (if startswith ''/'' b then b
      else if a = [] \<or> last a = CHR ''/'' then a @ b
      else a @ ''/'' @ b)"

definition wellknown_url :: "string \<Rightarrow> string \<Rightarrow> string" where
  "wellknown_url domain token = ''http://'' @ domain @ ''/.well-known/acme-challenge/'' @ token"

text \<open>
  Lines 124 to 127, the handler of \<open>IOError\<close> and \<open>AssertionError\<close>:
  \<^verbatim>\<open>
  os.remove(wellknown_path)
  raise ValueError("Wrote file to {0}, but couldn't download {1}".format(
      wellknown_path, wellknown_url))
  \<close>
\<close>

definition download_failed :: "string \<Rightarrow> string \<Rightarrow> state \<Rightarrow> unit result" where
  "download_failed wellknown_path url st =
     bind (os_remove wellknown_path st) (\<lambda>u st1. (Inl (ValueError_download wellknown_path url), st1))"

text \<open>
  Lines 119 to 127, "check that the file is in place":
  \<^verbatim>\<open>
  try:
      resp = urlopen(_request(wellknown_url))
      resp_data = resp.read().decode('utf8').strip()
      assert resp_data == keyauthorization
  except (IOError, AssertionError):
  \<close>
  \<open>HTTPError\<close> and \<open>URLError\<close> are \<open>IOError\<close>s and are handled like any other
  \<open>IOError\<close>; the exception of \<open>http.client\<close> and the \<open>UnicodeDecodeError\<close> of
  \<open>decode\<close> are none, and pass the handler by.
\<close>

definition check_file :: "world \<Rightarrow> string \<Rightarrow> string \<Rightarrow> string \<Rightarrow> string \<Rightarrow> state \<Rightarrow> unit result" where
  "check_file w domain token keyauthorization wellknown_path st =
     (case exchange w (GET (wellknown_url domain token)) st of
        (outcome, st1) \<Rightarrow>
          (case outcome of
             Response code body hs \<Rightarrow>
               (case utf8_decode w body of
                  None \<Rightarrow> (Inl UnicodeDecodeError, st1)
                | Some text \<Rightarrow>
                    if strip text = keyauthorization then (Inr (), st1)
                    else download_failed wellknown_path (wellknown_url domain token) st1)
           | HTTPError code body hs \<Rightarrow> download_failed wellknown_path (wellknown_url domain token) st1
           | URLError reason \<Rightarrow> download_failed wellknown_path (wellknown_url domain token) st1
           | OtherIOError \<Rightarrow> download_failed wellknown_path (wellknown_url domain token) st1
           | HTTPException \<Rightarrow> (Inl Raised_HTTPException, st1)))"

text \<open>
  Lines 135 to 140, one reading of the challenge:
  \<^verbatim>\<open>
  try:
      resp = urlopen(_request(challenge['uri']))
      challenge_status = json.loads(resp.read().decode('utf8'))
  except IOError as e:
      raise ValueError("Error checking challenge: {0} {1}".format(
          e.code, json.loads(e.read().decode('utf8'))))
  \<close>
  Of the \<open>IOError\<close>s only an \<open>HTTPError\<close> has the attribute \<open>code\<close>.
\<close>

definition read_challenge :: "world \<Rightarrow> string \<Rightarrow> state \<Rightarrow> json result" where
  "read_challenge w uri st =
     (case exchange w (GET uri) st of
        (outcome, st1) \<Rightarrow>
          (case outcome of
             Response code body hs \<Rightarrow> (loads_utf8 w body, st1)
           | HTTPError code body hs \<Rightarrow>
               (case loads_utf8 w body of
                  Inl e \<Rightarrow> (Inl e, st1)
                | Inr v \<Rightarrow> (Inl (ValueError_checking code v), st1))
           | URLError reason \<Rightarrow> (Inl AttributeError, st1)
           | OtherIOError \<Rightarrow> (Inl AttributeError, st1)
           | HTTPException \<Rightarrow> (Inl Raised_HTTPException, st1)))"

text \<open>
  Lines 134 to 149, "wait for challenge to be verified". The loop has no bound: a run
  that does not leave it has the value \<open>None\<close>.
  \<^verbatim>\<open>
  while True:
      ...
      if challenge_status['status'] == "pending":
          time.sleep(2)
      elif challenge_status['status'] == "valid":
          log.info("{0} verified!".format(domain))
          os.remove(wellknown_path)
          break
      else:
          raise ValueError("{0} challenge did not pass: {1}".format(
              domain, challenge_status))
  \<close>
\<close>

partial_function (option) wait_for_challenge ::
  "world \<Rightarrow> string \<Rightarrow> string \<Rightarrow> string \<Rightarrow> state \<Rightarrow> unit result option" where
  "wait_for_challenge w domain uri wellknown_path st =
     (case read_challenge w uri st of
        (Inl e, st1) \<Rightarrow> Some (Inl e, st1)
      | (Inr challenge_status, st1) \<Rightarrow>
          (case getitem challenge_status ''status'' of
             Inl e \<Rightarrow> Some (Inl e, st1)
           | Inr status \<Rightarrow>
               if status = JStr ''pending''
               then wait_for_challenge w domain uri wellknown_path (emit (Sleep 2) st1)
               else if status = JStr ''valid''
               then Some (os_remove wellknown_path (log_info (domain @ '' verified!'') st1))
               else Some (Inl (ValueError_challenge domain challenge_status), st1)))"

text \<open>
  Lines 103 to 131 for one domain, up to the notification of the authority; the result
  is the address of the challenge and the path of the published file.
\<close>

definition publish_challenge :: "world \<Rightarrow> config \<Rightarrow> string \<Rightarrow> state \<Rightarrow> (string \<times> string) result" where
  "publish_challenge w cfg domain st =
     bind (send_signed_request w cfg (CA cfg @ ''/acme/new-authz'')
             (JObj [(''resource'', JStr ''new-authz''),
                    (''identifier'', JObj [(''type'', JStr ''dns''), (''value'', JStr domain)])])
             [(201, None)] ''Error requesting challenges: {code} {result}''
             (log_info (''Verifying '' @ domain @ ''...'') st))
       (\<lambda>(result, hs) st1.
          case select_challenge w result of
            Inl e \<Rightarrow> (Inl e, st1)
          | Inr challenge \<Rightarrow>
              (case challenge_token challenge of
                 Inl e \<Rightarrow> (Inl e, st1)
               | Inr token \<Rightarrow>
                   (let keyauthorization = token @ ''.'' @ thumbprint cfg;
                        wellknown_path = path_join (acme_dir cfg) token
                    in bind (write_file w wellknown_path keyauthorization st1)
                         (\<lambda>u st2.
                            bind (check_file w domain token keyauthorization wellknown_path st2)
                              (\<lambda>u st3.
                                 case challenge_uri challenge of
                                   Inl e \<Rightarrow> (Inl e, st3)
                                 | Inr uri \<Rightarrow>
                                     bind (send_signed_request w cfg uri
                                             (JObj [(''resource'', JStr ''challenge''),
                                                    (''keyAuthorization'', JStr keyauthorization)])
                                             [(202, None)] ''Error triggering challenge: {code} {result}'' st3)
                                       (\<lambda>r st4. (Inr (uri, wellknown_path), st4)))))))"

definition verify_domain :: "world \<Rightarrow> config \<Rightarrow> string \<Rightarrow> state \<Rightarrow> unit result option" where
  "verify_domain w cfg domain st =
     (case publish_challenge w cfg domain st of
        (Inl e, st1) \<Rightarrow> Some (Inl e, st1)
      | (Inr (uri, wellknown_path), st1) \<Rightarrow> wait_for_challenge w domain uri wellknown_path st1)"

text \<open>\<open>for domain in domains:\<close> the first domain that fails ends the run.\<close>

fun verify_domains :: "world \<Rightarrow> config \<Rightarrow> string list \<Rightarrow> state \<Rightarrow> unit result option" where
  "verify_domains w cfg [] st = Some (Inr (), st)"
| "verify_domains w cfg (domain # domains) st =
     (case verify_domain w cfg domain st of
        None \<Rightarrow> None
      | Some (Inl e, st1) \<Rightarrow> Some (Inl e, st1)
      | Some (Inr u, st1) \<Rightarrow> verify_domains w cfg domains st1)"

section \<open>Registration, the certificate and the whole run\<close>

text \<open>
  Lines 89 to 99. The exchange with \<open>/terms\<close> goes through \<open>http.client\<close>, which
  returns a response whatever its status is.
  \<^verbatim>\<open>
  agreement_conn = httplib.HTTPSConnection(CA.split('/')[-1])
  agreement_conn.request("HEAD", "/terms")
  payload = {
      "resource": "new-reg",
      "agreement": agreement_conn.getresponse().getheader("location"),
  }
  if account_email:
      payload["contact"] = ["mailto:{0}".format(account_email)]
  \<close>
\<close>

definition head_terms :: "world \<Rightarrow> config \<Rightarrow> state \<Rightarrow> headers result" where
  "head_terms w cfg st =
     (case exchange w (HEAD (last (split ''/'' (CA cfg))) ''/terms'') st of
        (outcome, st1) \<Rightarrow>
          (case outcome of
             Response code body hs \<Rightarrow> (Inr hs, st1)
           | HTTPError code body hs \<Rightarrow> (Inr hs, st1)
           | URLError reason \<Rightarrow> (Inl (Raised_URLError reason), st1)
           | OtherIOError \<Rightarrow> (Inl Raised_IOError, st1)
           | HTTPException \<Rightarrow> (Inl Raised_HTTPException, st1)))"

definition registration_payload :: "config \<Rightarrow> headers \<Rightarrow> json" where
  "registration_payload cfg hs =
     (let payload = [(''resource'', JStr ''new-reg''),
                     (''agreement'', (case getheader ''location'' hs of None \<Rightarrow> JNull | Some l \<Rightarrow> JStr l))]
      in JObj (case account_email cfg of
                 None \<Rightarrow> payload
               | Some email \<Rightarrow>
                   if email = [] then payload
                   else payload @ [(''contact'', JArr [JStr (''mailto:'' @ email)])]))"

definition register_account :: "world \<Rightarrow> config \<Rightarrow> state \<Rightarrow> (string \<times> headers) result" where
  "register_account w cfg st =
     bind (head_terms w cfg (log_info ''Registering account...'' st))
       (\<lambda>hs st1.
          send_signed_request w cfg (CA cfg @ ''/acme/new-reg'') (registration_payload cfg hs)
            [(201, Some ''Registered!''), (409, Some ''Already registered!'')]
            ''Error registering: {code} {result}'' st1)"

text \<open>
  Lines 158 to 162. The loop variable is the variable \<open>header\<close> of \<open>get_crt\<close>.
  \<^verbatim>\<open>
  for header in headers.get_all("Link"):
      m = re.search(r'^\s*<([^>]*)>.*;\s*rel="up"', header)
      if m:
          log.info("Retrieving Intermediate Certificate ({0})!".format(m.group(1)))
          certchain.append(urlopen(_request(m.group(1))).read())
  \<close>
\<close>

fun fetch_chain :: "world \<Rightarrow> string list \<Rightarrow> string list \<Rightarrow> state \<Rightarrow> string list result" where
  "fetch_chain w [] certchain st = (Inr certchain, st)"
| "fetch_chain w (h # hs) certchain st =
     (case link_up h of
        None \<Rightarrow> fetch_chain w hs certchain (st\<lparr>header := JStr h\<rparr>)
      | Some url \<Rightarrow>
          bind (urlopen w (GET url)
                  (log_info (''Retrieving Intermediate Certificate ('' @ url @ '')!'') (st\<lparr>header := JStr h\<rparr>)))
            (\<lambda>(code, body, hs') st1. fetch_chain w hs (certchain @ [body]) st1))"

text \<open>
  Lines 156 to 162. \<open>get_all\<close> returns \<open>None\<close> when the response has no \<open>Link\<close>
  header, and \<open>None\<close> cannot be iterated over.
\<close>

definition cert_chain :: "world \<Rightarrow> config \<Rightarrow> string \<Rightarrow> headers \<Rightarrow> state \<Rightarrow> string list result" where
  "cert_chain w cfg result hs st =
     (if chain cfg
      then (case get_all ''Link'' hs of
              None \<Rightarrow> (Inl TypeError, st)
            | Some links \<Rightarrow> fetch_chain w links [result] st)
      else (Inr [result], st))"

text \<open>Lines 152 to 167.\<close>

definition sign_certificate :: "world \<Rightarrow> config \<Rightarrow> state \<Rightarrow> string result" where
  "sign_certificate w cfg st =
     (case openssl_req_der w of
        None \<Rightarrow> (Inl IOError_openssl, log_info ''Signing certificate...'' st)
      | Some der \<Rightarrow>
          bind (send_signed_request w cfg (CA cfg @ ''/acme/new-cert'')
                  (JObj [(''resource'', JStr ''new-cert''), (''csr'', JStr (b64 der))])
                  [(201, None)] ''Error signing certificate: {code} {result}''
                  (log_info ''Signing certificate...'' st))
            (\<lambda>(result, hs) st1.
               bind (cert_chain w cfg result hs st1)
                 (\<lambda>certchain st2.
                    (Inr (concat (map pem certchain)), log_info ''Certificate signed!'' st2))))"

text \<open>
  \<open>get_crt\<close> from line 73 on: the account key has been parsed, \<open>header\<close> and the
  thumbprint are given. The domains are verified in the order of their hash values,
  which stands for the order in which Python iterates over the set.
\<close>

definition get_crt :: "world \<Rightarrow> config \<Rightarrow> state \<Rightarrow> string result option" where
  "get_crt w cfg st =
     (case openssl_req_text w of
        None \<Rightarrow> Some (Inl IOError_openssl, log_info ''Parsing CSR...'' st)
      | Some out \<Rightarrow>
          (case utf8_decode w out of
             None \<Rightarrow> Some (Inl UnicodeDecodeError, log_info ''Parsing CSR...'' st)
           | Some csr_dump \<Rightarrow>
               (case register_account w cfg (log_info ''Parsing CSR...'' st) of
                  (Inl e, st1) \<Rightarrow> Some (Inl e, st1)
                | (Inr r, st1) \<Rightarrow>
                    (case verify_domains w cfg (sort_key (str_hash w) (find_domains csr_dump)) st1 of
                       None \<Rightarrow> None
                     | Some (Inl e, st2) \<Rightarrow> Some (Inl e, st2)
                     | Some (Inr u, st2) \<Rightarrow> Some (sign_certificate w cfg st2)))))"

section \<open>An environment for examples\<close>

text \<open>
  The exchanges of an example run are a list of outcomes, the \<open>n\<close>-th exchange gets the
  \<open>n\<close>-th outcome; past the end of the list the server does not answer.
\<close>

definition scripted :: "http_result list \<Rightarrow> nat \<Rightarrow> request \<Rightarrow> http_result" where
  "scripted outcomes n r = (if n < length outcomes then outcomes ! n else URLError ''timed out'')"

text \<open>
  In the examples the codec is needed on ASCII bytes, which decode to themselves, and
  on the byte 255, which no UTF-8 text contains.
\<close>

definition ascii_decode :: "string \<Rightarrow> string option" where
  "ascii_decode b = (if list_all (\<lambda>c. (of_char c :: nat) < 128) b then Some b else None)"

text \<open>The JSON texts of the examples and the values they stand for.\<close>

definition authz_json :: json where
  "authz_json =
     JObj [(''challenges'',
            JArr [JObj [(''type'', JStr ''dns-01''), (''token'', JStr ''tok/1''),
                        (''uri'', JStr ''https://ca.test/acme/challenge/2'')],
                  JObj [(''type'', JStr ''http-01''), (''token'', JStr ''tok/1''),
                        (''uri'', JStr ''https://ca.test/acme/challenge/1'')]])]"

definition authz_text :: string where
  \<open>authz_text = ''{"challenges": [{"type": "dns-01", "token": "tok/1", "uri": "https://ca.test/acme/challenge/2"}, {"type": "http-01", "token": "tok/1", "uri": "https://ca.test/acme/challenge/1"}]}''\<close>

definition pending_body :: string where
  \<open>pending_body = ''{"status": "pending"}''\<close>

definition valid_body :: string where
  \<open>valid_body = ''{"status": "valid"}''\<close>

definition invalid_body :: string where
  \<open>invalid_body = ''{"status": "invalid"}''\<close>

definition example_loads :: "string \<Rightarrow> json option" where
  "example_loads text =
     map_of [(pending_body, JObj [(''status'', JStr ''pending'')]),
             (valid_body, JObj [(''status'', JStr ''valid'')]),
             (invalid_body, JObj [(''status'', JStr ''invalid'')]),
             (authz_text, authz_json)] text"

text \<open>A serializer for the examples: the members of a dictionary, without escapes.\<close>

function decimal :: "nat \<Rightarrow> string" where
  "decimal n = (if n < 10 then [char_of (48 + n)] else decimal (n div 10) @ [char_of (48 + n mod 10)])"
  by pat_completeness auto
termination
  by (relation "measure (\<lambda>n. n)") auto

fun example_dumps :: "json \<Rightarrow> string" where
  \<open>example_dumps JNull = ''null''\<close>
| \<open>example_dumps (JBool b) = (if b then ''true'' else ''false'')\<close>
| \<open>example_dumps (JNum n) = (if n < 0 then ''-'' @ decimal (nat (- n)) else decimal (nat n))\<close>
| \<open>example_dumps (JStr s) = ''"'' @ s @ ''"''\<close>
| \<open>example_dumps (JArr xs) = ''['' @ join '', '' (map example_dumps xs) @ '']''\<close>
| \<open>example_dumps (JObj items) =
     ''{'' @ join '', '' (map (\<lambda>kv. ''"'' @ fst kv @ ''": '' @ example_dumps (snd kv)) items) @ ''}''\<close>

definition example_world :: "string \<Rightarrow> http_result list \<Rightarrow> world" where
  "example_world csr_dump outcomes =
     \<lparr>net = scripted outcomes,
      openssl_req_text = Some csr_dump,
      openssl_req_der = Some ''DER'',
      openssl_dgst_sign = (\<lambda>text. Some ''SIG''),
      can_open = (\<lambda>path. True),
      utf8_decode = ascii_decode,
      json_loads = example_loads,
      json_dumps = example_dumps,
      str_hash = length\<rparr>"

definition example_config :: config where
  "example_config =
     \<lparr>acme_dir = ''/var/www/challenges'',
      account_email = None,
      CA = ''https://ca.test'',
      chain = False,
      thumbprint = ''THUMB''\<rparr>"

definition example_header :: json where
  "example_header =
     JObj [(''alg'', JStr ''RS256''),
           (''jwk'', JObj [(''e'', JStr ''AQAB''), (''kty'', JStr ''RSA''), (''n'', JStr ''MODULUS'')])]"

definition start :: state where
  "start = \<lparr>header = example_header, tick = 0, files = Map.empty, trace = []\<rparr>"

section \<open>What a run observes\<close>

text \<open>
  The statements below speak about the environment through these functions.

  What the \<open>n\<close>-th exchange shows when the challenge is read then: the body as a
  JSON value, and its member \<open>status\<close> (\<open>None\<close>: the reading raises).
\<close>

definition body_at :: "world \<Rightarrow> string \<Rightarrow> nat \<Rightarrow> json option" where
  "body_at w uri n =
     (case net w n (GET uri) of
        Response code body hs \<Rightarrow> (case loads_utf8 w body of Inl e \<Rightarrow> None | Inr v \<Rightarrow> Some v)
      | HTTPError code body hs \<Rightarrow> None
      | URLError reason \<Rightarrow> None
      | OtherIOError \<Rightarrow> None
      | HTTPException \<Rightarrow> None)"

definition status_at :: "world \<Rightarrow> string \<Rightarrow> nat \<Rightarrow> json option" where
  "status_at w uri n =
     (case body_at w uri n of
        None \<Rightarrow> None
      | Some v \<Rightarrow> (case getitem v ''status'' of Inl e \<Rightarrow> None | Inr s \<Rightarrow> Some s))"

text \<open>The state after one reading of the challenge.\<close>

definition polled :: "string \<Rightarrow> state \<Rightarrow> state" where
  "polled uri st = (emit (Sent (GET uri)) st)\<lparr>tick := Suc (tick st)\<rparr>"



section \<open>Requests and exchanges of the examples\<close>

text \<open>A request without common name and without alternative names.\<close>

definition csr_without_names :: string where
  "csr_without_names =
     ''Certificate Request:'' @ [newline] @
     ''    Data:'' @ [newline] @
     ''        Subject: O = Example'' @ [newline] @
     ''    Signature Algorithm: sha256WithRSAEncryption'' @ [newline]"

definition selfcheck_body :: string where
  "selfcheck_body = ''tok_1.THUMB'' @ [newline]"

text \<open>
  The exchanges of a run for the example request, up to the first reading of the
  challenge of example.com: the terms, the registration (already registered), the
  authorization, the check of the published file, and the notification.
\<close>

definition exchanges_until_poll :: "string \<Rightarrow> http_result list" where
  "exchanges_until_poll selfcheck =
     [Response 200 [] [(''Location'', ''https://ca.test/terms/v1'')],
      Response 200 ''{}'' [(''Replay-Nonce'', ''n1'')],
      HTTPError 409 ''{}'' [],
      Response 200 ''{}'' [(''Replay-Nonce'', ''n2'')],
      Response 201 authz_text [],
      Response 200 selfcheck [],
      Response 200 ''{}'' [(''Replay-Nonce'', ''n3'')],
      Response 202 ''{}'' []]"

text \<open>A state in which the challenge file of the examples is published.\<close>

definition published :: state where
  "published = start\<lparr>files := [''/var/www/challenges/tok_1'' \<mapsto> ''tok_1.THUMB'']\<rparr>"

definition chain_config :: config where
  "chain_config = example_config\<lparr>chain := True\<rparr>"



definition new_cert_payload :: json where
  "new_cert_payload = JObj [(''resource'', JStr ''new-cert''), (''csr'', JStr (b64 ''DER''))]"

section \<open>Properties of the token and of the domains\<close>

lemma token_char_underscore: "token_char CHR ''_''"
  by (simp add: token_char_def)

text \<open>
  C7. Sanitization keeps the length of the token; at each position a character of
  the class \<open>[A-Za-z0-9_-]\<close> stays and any other character becomes \<open>_\<close>; and
  sanitizing a second time changes nothing, for every input string.
\<close>

theorem sanitize_token_spec:
  "length (sanitize_token t) = length t
   \<and> (\<forall>i < length t. sanitize_token t ! i = (if token_char (t ! i) then t ! i else CHR ''_''))
   \<and> sanitize_token (sanitize_token t) = sanitize_token t"
  by (simp add: sanitize_token_def token_char_underscore)

theorem sanitize_token_spec_witness:
  "sanitize_token ''a/b.c-d_9'' = ''a_b_c-d_9''
   \<and> sanitize_token ''a/b.c-d_9'' ! 1 = CHR ''_''
   \<and> sanitize_token (sanitize_token ''a/b.c-d_9'') = ''a_b_c-d_9''"
proof -
  have ev: "sanitize_token ''a/b.c-d_9'' = ''a_b_c-d_9''"
    by (simp add: sanitize_token_def token_char_def in_range_def)
  have len: "(1::nat) < length ''a/b.c-d_9''" by simp
  have nt: "\<not> token_char (''a/b.c-d_9'' ! 1)"
    by (simp add: token_char_def in_range_def)
  from sanitize_token_spec [of "''a/b.c-d_9''"] len nt
  have "sanitize_token ''a/b.c-d_9'' ! 1 = CHR ''_''"
    and "sanitize_token (sanitize_token ''a/b.c-d_9'') = sanitize_token ''a/b.c-d_9''"
    by auto
  with ev show ?thesis by simp
qed

lemma set_add: "set (add x xs) = insert x (set xs)"
  by (auto simp: add_def)

lemma distinct_add: "distinct xs \<Longrightarrow> distinct (add x xs)"
  by (simp add: add_def)

lemma set_add_alt_names:
  "set (add_alt_names sans domains) =
     set domains \<union> {drop 4 san | san. san \<in> set sans \<and> startswith ''DNS:'' san}"
  by (induction sans arbitrary: domains) (auto simp: set_add)

lemma distinct_add_alt_names: "distinct domains \<Longrightarrow> distinct (add_alt_names sans domains)"
  by (induction sans arbitrary: domains) (simp_all add: distinct_add)

lemma find_domains_example: "find_domains example_csr = [''example.com'', ''www.example.com'']"
  by code_simp

text \<open>
  C8. The domains found in a text dump are the common name of the subject, when the
  pattern of the subject line matches, together with every entry of the alternative
  name line that starts with \<open>DNS:\<close> (without these four characters), each of them
  once; the request with CN example.com and the alternative names
  \<open>DNS:example.com, DNS:www.example.com\<close> gives example.com and www.example.com.
\<close>

theorem find_domains_union:
  "set (find_domains csr_dump) =
     (case search_common_name csr_dump of None \<Rightarrow> {} | Some name \<Rightarrow> {name})
     \<union> (case search_alt_names csr_dump of
          None \<Rightarrow> {}
        | Some line \<Rightarrow> {drop 4 san | san. san \<in> set (split '', '' line) \<and> startswith ''DNS:'' san})
   \<and> distinct (find_domains csr_dump)
   \<and> search_common_name example_csr = Some ''example.com''
   \<and> search_alt_names example_csr = Some ''DNS:example.com, DNS:www.example.com''
   \<and> set (find_domains example_csr) = {''example.com'', ''www.example.com''}"
proof -
  have "set (find_domains csr_dump) =
     (case search_common_name csr_dump of None \<Rightarrow> {} | Some name \<Rightarrow> {name})
     \<union> (case search_alt_names csr_dump of
          None \<Rightarrow> {}
        | Some line \<Rightarrow> {drop 4 san | san. san \<in> set (split '', '' line) \<and> startswith ''DNS:'' san})"
    by (simp add: find_domains_def set_add_alt_names set_add split: option.splits)
  moreover have "distinct (find_domains csr_dump)"
    by (simp add: find_domains_def distinct_add_alt_names distinct_add split: option.splits)
  moreover have "search_common_name example_csr = Some ''example.com''"
    by code_simp
  moreover have "search_alt_names example_csr = Some ''DNS:example.com, DNS:www.example.com''"
    by code_simp
  moreover have "set (find_domains example_csr) = {''example.com'', ''www.example.com''}"
    by (simp add: find_domains_example)
  ultimately show ?thesis by blast
qed

section \<open>Facts about signed requests\<close>

lemma bind_Inr:
  "bind r f = (Inr y, st') \<longleftrightarrow> (\<exists>x st1. r = (Inr x, st1) \<and> f x st1 = (Inr y, st'))"
  by (auto simp: bind_def split: prod.splits sum.splits)

lemma urlopen_Inr:
  "urlopen w r st = (Inr (code, body, hs), st1) \<longleftrightarrow>
     net w (tick st) r = Response code body hs \<and> st1 = (emit (Sent r) st)\<lparr>tick := Suc (tick st)\<rparr>"
  by (cases "net w (tick st) r") (auto simp: urlopen_def exchange_def)

lemma fetch_nonce_Inr:
  "fetch_nonce w cfg st = (Inr nonce, st1) \<longleftrightarrow>
     (\<exists>code body hs.
        net w (tick st) (GET (CA cfg @ ''/directory'')) = Response code body hs
      \<and> nonce = (case get_header ''Replay-Nonce'' hs of None \<Rightarrow> JNull | Some n \<Rightarrow> JStr n)
      \<and> st1 = (emit (Sent (GET (CA cfg @ ''/directory''))) st)\<lparr>tick := Suc (tick st)\<rparr>)"
  by (auto simp: fetch_nonce_def bind_Inr urlopen_Inr)

lemma openssl_sign_Inr:
  "openssl_sign w text st = (Inr signature, st1) \<longleftrightarrow>
     openssl_dgst_sign w text = Some signature \<and> st1 = emit (Signed text) st"
  by (auto simp: openssl_sign_def split: option.splits)

lemma signed_request_Inr:
  assumes "signed_request w cfg payload st = (Inr request, st1)"
  shows "\<exists>code body hs protected signature.
      net w (tick st) (GET (CA cfg @ ''/directory'')) = Response code body hs
    \<and> setitem (header st) ''nonce''
         (case get_header ''Replay-Nonce'' hs of None \<Rightarrow> JNull | Some nonce \<Rightarrow> JStr nonce) = Inr protected
    \<and> openssl_dgst_sign w (b64 (json_dumps w protected) @ ''.'' @ b64 (json_dumps w payload)) = Some signature
    \<and> request = JObj [(''header'', header st),
                      (''protected'', JStr (b64 (json_dumps w protected))),
                      (''payload'', JStr (b64 (json_dumps w payload))),
                      (''signature'', JStr (b64 signature))]
    \<and> st1 = st\<lparr>tick := Suc (tick st),
               trace := trace st @ [Sent (GET (CA cfg @ ''/directory'')),
                                    Signed (b64 (json_dumps w protected) @ ''.'' @ b64 (json_dumps w payload))]\<rparr>"
proof -
  let ?p64 = "b64 (json_dumps w payload)"
  from assms obtain nonce st0 where
    n: "fetch_nonce w cfg st = (Inr nonce, st0)" and
    r: "(case setitem (header st) ''nonce'' nonce of
           Inl e \<Rightarrow> (Inl e, st0)
         | Inr protected \<Rightarrow>
             bind (openssl_sign w (b64 (json_dumps w protected) @ ''.'' @ ?p64) st0)
               (\<lambda>signature st2.
                  (Inr (JObj [(''header'', header st2),
                              (''protected'', JStr (b64 (json_dumps w protected))),
                              (''payload'', JStr ?p64),
                              (''signature'', JStr (b64 signature))]), st2))) = (Inr request, st1)"
    unfolding signed_request_def Let_def deepcopy_def bind_Inr by blast
  from n obtain code body hs where
    net: "net w (tick st) (GET (CA cfg @ ''/directory'')) = Response code body hs" and
    nonce: "nonce = (case get_header ''Replay-Nonce'' hs of None \<Rightarrow> JNull | Some n \<Rightarrow> JStr n)" and
    st0: "st0 = (emit (Sent (GET (CA cfg @ ''/directory''))) st)\<lparr>tick := Suc (tick st)\<rparr>"
    unfolding fetch_nonce_Inr by blast
  from r obtain protected where
    p: "setitem (header st) ''nonce'' nonce = Inr protected"
    by (cases "setitem (header st) ''nonce'' nonce") auto
  let ?text = "b64 (json_dumps w protected) @ ''.'' @ ?p64"
  from r p obtain signature st2 where
    s: "openssl_sign w ?text st0 = (Inr signature, st2)" and
    q: "request = JObj [(''header'', header st2),
                        (''protected'', JStr (b64 (json_dumps w protected))),
                        (''payload'', JStr ?p64),
                        (''signature'', JStr (b64 signature))]" and
    e: "st1 = st2"
    by (auto simp: bind_Inr)
  from s have sig: "openssl_dgst_sign w ?text = Some signature" and st2: "st2 = emit (Signed ?text) st0"
    unfolding openssl_sign_Inr by blast+
  have "st1 = st\<lparr>tick := Suc (tick st),
               trace := trace st @ [Sent (GET (CA cfg @ ''/directory'')), Signed ?text]\<rparr>"
    by (simp add: e st2 st0 emit_def)
  moreover have "header st2 = header st"
    by (simp add: st2 st0 emit_def)
  ultimately show ?thesis
    using net nonce p sig q by auto
qed


lemma example_world_simps:
  "net (example_world csr outcomes) = scripted outcomes"
  "openssl_req_text (example_world csr outcomes) = Some csr"
  "openssl_req_der (example_world csr outcomes) = Some ''DER''"
  "openssl_dgst_sign (example_world csr outcomes) = (\<lambda>text. Some ''SIG'')"
  "can_open (example_world csr outcomes) = (\<lambda>path. True)"
  "utf8_decode (example_world csr outcomes) = ascii_decode"
  "json_loads (example_world csr outcomes) = example_loads"
  "json_dumps (example_world csr outcomes) = example_dumps"
  "str_hash (example_world csr outcomes) = length"
  by (simp_all add: example_world_def)

lemma start_simps:
  "header start = example_header" "tick start = 0" "files start = Map.empty" "trace start = []"
  by (simp_all add: start_def)

lemma example_config_simps:
  "acme_dir example_config = ''/var/www/challenges''"
  "account_email example_config = None"
  "CA example_config = ''https://ca.test''"
  "chain example_config = False"
  "thumbprint example_config = ''THUMB''"
  by (simp_all add: example_config_def)

lemma get_header_nonce: "get_header ''Replay-Nonce'' [(''Replay-Nonce'', n)] = Some n"
  by (simp add: get_header_def)




text \<open>
  C3. Whatever the outcome of the exchange, a response that \<open>urlopen\<close> returns or the
  response of an \<open>HTTPError\<close>, its code, body and headers are read, and the code alone
  decides: a code of the table gives the body and the headers, after the message of
  the table is logged when there is one; a code that is not in the table raises the
  \<open>ValueError\<close> of the template with this code and this body.
\<close>

theorem send_signed_request_classifies:
  assumes "signed_request w cfg payload st = (Inr request, st1)"
    and "net w (tick st1) (POST url (json_dumps w request)) = outcome"
    and "outcome = Response code result hs \<or> outcome = HTTPError code result hs"
  shows "send_signed_request w cfg url payload return_codes error_message st =
     (case map_of return_codes code of
        None \<Rightarrow>
          (Inl (ValueError_signed error_message (Some code) result),
           (emit (Sent (POST url (json_dumps w request))) st1)\<lparr>tick := Suc (tick st1)\<rparr>)
      | Some message \<Rightarrow>
          (Inr (result, hs),
           (case message of
              None \<Rightarrow> (emit (Sent (POST url (json_dumps w request))) st1)\<lparr>tick := Suc (tick st1)\<rparr>
            | Some m \<Rightarrow> log_info m ((emit (Sent (POST url (json_dumps w request))) st1)\<lparr>tick := Suc (tick st1)\<rparr>))))"
  using assms
  by (auto simp: send_signed_request_def bind_def exchange_def classify_def split: option.splits)

theorem send_signed_request_classifies_witness:
  "fst (send_signed_request
          (example_world example_csr [Response 200 [] [(''Replay-Nonce'', ''n1'')], HTTPError 409 ''conflict'' []])
          example_config ''https://ca.test/acme/new-reg'' (registration_payload example_config [])
          [(201, Some ''Registered!''), (409, Some ''Already registered!'')]
          ''Error registering: {code} {result}'' start) = Inr (''conflict'', [])
   \<and> fst (send_signed_request
          (example_world example_csr [Response 200 [] [(''Replay-Nonce'', ''n1'')], HTTPError 409 ''conflict'' []])
          example_config ''https://ca.test/acme/new-authz'' (registration_payload example_config [])
          [(201, None)]
          ''Error requesting challenges: {code} {result}'' start)
       = Inl (ValueError_signed ''Error requesting challenges: {code} {result}'' (Some 409) ''conflict'')"
proof -
  let ?W = "example_world example_csr [Response 200 [] [(''Replay-Nonce'', ''n1'')], HTTPError 409 ''conflict'' []]"
  let ?P = "registration_payload example_config []"
  have "\<exists>request st1. signed_request ?W example_config ?P start = (Inr request, st1)"
    by (simp add: signed_request_def fetch_nonce_def urlopen_def exchange_def bind_def openssl_sign_def
          deepcopy_def example_world_simps start_simps example_config_simps scripted_def
          get_header_nonce example_header_def Let_def)
  then obtain request st1 where sr: "signed_request ?W example_config ?P start = (Inr request, st1)"
    by blast
  from signed_request_Inr [OF sr] have "tick st1 = 1"
    by (auto simp: start_def)
  then have net: "\<And>url. net ?W (tick st1) (POST url (json_dumps ?W request)) = HTTPError 409 ''conflict'' []"
    by (simp add: example_world_def scripted_def)
  have out: "HTTPError 409 ''conflict'' [] = Response 409 ''conflict'' [] \<or> HTTPError 409 ''conflict'' [] = HTTPError 409 ''conflict'' []"
    by simp
  show ?thesis
    using send_signed_request_classifies [OF sr net out,
        of "''https://ca.test/acme/new-reg''" "[(201, Some ''Registered!''), (409, Some ''Already registered!'')]"
           "''Error registering: {code} {result}''"]
      send_signed_request_classifies [OF sr net out,
        of "''https://ca.test/acme/new-authz''" "[(201, None)]"
           "''Error requesting challenges: {code} {result}''"]
    by simp
qed

section \<open>Facts about the polling loop\<close>

lemma status_at_Some:
  assumes "status_at w uri (tick st) = Some s"
  shows "\<exists>v. body_at w uri (tick st) = Some v \<and> getitem v ''status'' = Inr s
           \<and> read_challenge w uri st = (Inr v, polled uri st)"
  using assms
  by (auto simp: status_at_def body_at_def read_challenge_def exchange_def polled_def
      split: option.splits sum.splits http_result.splits)

lemma read_challenge_status:
  assumes "read_challenge w uri st = (Inr v, st1)" and "getitem v ''status'' = Inr s"
  shows "status_at w uri (tick st) = Some s \<and> body_at w uri (tick st) = Some v \<and> st1 = polled uri st"
  using assms
  by (auto simp: status_at_def body_at_def read_challenge_def exchange_def polled_def
      split: option.splits sum.splits http_result.splits)

lemma wait_pending:
  assumes "status_at w uri (tick st) = Some (JStr ''pending'')"
  shows "wait_for_challenge w domain uri path st =
         wait_for_challenge w domain uri path (emit (Sleep 2) (polled uri st))"
proof -
  from status_at_Some [OF assms] obtain v where
    "getitem v ''status'' = Inr (JStr ''pending'')" "read_challenge w uri st = (Inr v, polled uri st)"
    by blast
  then show ?thesis
    by (subst wait_for_challenge.simps) simp
qed

lemma wait_valid:
  assumes "status_at w uri (tick st) = Some (JStr ''valid'')"
  shows "wait_for_challenge w domain uri path st =
         Some (os_remove path (log_info (domain @ '' verified!'') (polled uri st)))"
proof -
  from status_at_Some [OF assms] obtain v where
    "getitem v ''status'' = Inr (JStr ''valid'')" "read_challenge w uri st = (Inr v, polled uri st)"
    by blast
  then show ?thesis
    by (subst wait_for_challenge.simps) simp
qed

lemma wait_other:
  assumes "status_at w uri (tick st) = Some s" and "s \<noteq> JStr ''pending''" and "s \<noteq> JStr ''valid''"
  shows "\<exists>v. body_at w uri (tick st) = Some v
           \<and> wait_for_challenge w domain uri path st = Some (Inl (ValueError_challenge domain v), polled uri st)"
proof -
  from status_at_Some [OF assms(1)] obtain v where
    "body_at w uri (tick st) = Some v"
    "getitem v ''status'' = Inr s" "read_challenge w uri st = (Inr v, polled uri st)"
    by blast
  with assms(2,3) show ?thesis
    by (subst wait_for_challenge.simps) simp
qed

lemma wait_pending_then_valid:
  assumes "\<forall>i<k. status_at w uri (tick st + i) = Some (JStr ''pending'')"
    and "status_at w uri (tick st + k) = Some (JStr ''valid'')"
    and "path \<in> dom (files st)"
  shows "wait_for_challenge w domain uri path st =
         Some (Inr (), st\<lparr>tick := tick st + k + 1,
                           files := (files st)(path := None),
                           trace := trace st @ concat (replicate k [Sent (GET uri), Sleep 2])
                                    @ [Sent (GET uri), Info (domain @ '' verified!''), Removed path]\<rparr>)"
  using assms
proof (induction k arbitrary: st)
  case 0
  then have "status_at w uri (tick st) = Some (JStr ''valid'')" by simp
  from wait_valid [OF this] 0(3) show ?case
    by (simp add: os_remove_def log_info_def emit_def polled_def fun_upd_def)
next
  case (Suc k)
  let ?st = "emit (Sleep 2) (polled uri st)"
  from Suc.prems(1) have p: "status_at w uri (tick st) = Some (JStr ''pending'')"
    by (metis add.right_neutral zero_less_Suc)
  have t: "tick ?st = Suc (tick st)" and f: "files ?st = files st"
    by (simp_all add: emit_def polled_def)
  have "\<forall>i<k. status_at w uri (tick ?st + i) = Some (JStr ''pending'')"
    using Suc.prems(1) by (simp add: t) (metis Suc_less_eq add_Suc_right)
  moreover have "status_at w uri (tick ?st + k) = Some (JStr ''valid'')"
    using Suc.prems(2) by (simp add: t)
  moreover have "path \<in> dom (files ?st)"
    using Suc.prems(3) by (simp add: f)
  ultimately have "wait_for_challenge w domain uri path ?st =
         Some (Inr (), ?st\<lparr>tick := tick ?st + k + 1,
                           files := (files ?st)(path := None),
                           trace := trace ?st @ concat (replicate k [Sent (GET uri), Sleep 2])
                                    @ [Sent (GET uri), Info (domain @ '' verified!''), Removed path]\<rparr>)"
    by (rule Suc.IH)
  then show ?case
    by (simp add: wait_pending [OF p] emit_def polled_def fun_upd_def)
qed

lemma wait_returns_not_pending:
  assumes "wait_for_challenge w domain uri path st = Some y"
  shows "\<exists>k. status_at w uri (tick st + k) \<noteq> Some (JStr ''pending'')"
proof (rule wait_for_challenge.raw_induct
    [where P = "\<lambda>w domain uri path st y. \<exists>k. status_at w uri (tick st + k) \<noteq> Some (JStr ''pending'')",
     OF _ assms], goal_cases)
  case (1 wait w domain uri path st y)
  show ?case
  proof (cases "status_at w uri (tick st) = Some (JStr ''pending'')")
    case False
    then have "status_at w uri (tick st + 0) \<noteq> Some (JStr ''pending'')" by simp
    then show ?thesis by blast
  next
    case True
    let ?st = "emit (Sleep 2) (polled uri st)"
    from status_at_Some [OF True] obtain v where
      "getitem v ''status'' = Inr (JStr ''pending'')" "read_challenge w uri st = (Inr v, polled uri st)"
      by blast
    with 1(2) have "wait w domain uri path ?st = Some y"
      by simp
    from 1(1) [OF this] obtain k where "status_at w uri (tick ?st + k) \<noteq> Some (JStr ''pending'')"
      by blast
    then have "status_at w uri (tick st + Suc k) \<noteq> Some (JStr ''pending'')"
      by (simp add: emit_def polled_def)
    then show ?thesis by blast
  qed
qed

lemma wait_success_after_valid:
  assumes "wait_for_challenge w domain uri path st = Some y"
  shows "isl (fst y) \<or> (\<exists>k. (\<forall>i<k. status_at w uri (tick st + i) = Some (JStr ''pending''))
      \<and> status_at w uri (tick st + k) = Some (JStr ''valid''))"
proof (rule wait_for_challenge.raw_induct
    [where P = "\<lambda>w domain uri path st y. isl (fst y) \<or>
       (\<exists>k. (\<forall>i<k. status_at w uri (tick st + i) = Some (JStr ''pending''))
          \<and> status_at w uri (tick st + k) = Some (JStr ''valid''))",
     OF _ assms], goal_cases)
  case (1 wait w domain uri path st y)
  show ?case
  proof (cases "isl (fst y)")
    case True
    then show ?thesis by simp
  next
    case ok: False
  from 1(2) ok obtain v st1 where r: "read_challenge w uri st = (Inr v, st1)"
    by (cases "read_challenge w uri st") (auto split: sum.splits)
  with 1(2) ok obtain s where s: "getitem v ''status'' = Inr s"
    by (cases "getitem v ''status''") auto
  from read_challenge_status [OF r s] have sa: "status_at w uri (tick st) = Some s" and st1: "st1 = polled uri st"
    by blast+
  show ?thesis
  proof (cases "s = JStr ''pending''")
    case True
    let ?st = "emit (Sleep 2) (polled uri st)"
    from True 1(2) r s st1 have "wait w domain uri path ?st = Some y"
      by simp
    from 1(1) [OF this] ok obtain k where
      k: "\<forall>i<k. status_at w uri (tick ?st + i) = Some (JStr ''pending'')"
         "status_at w uri (tick ?st + k) = Some (JStr ''valid'')"
      by blast
    have "\<forall>i<Suc k. status_at w uri (tick st + i) = Some (JStr ''pending'')"
    proof (intro allI impI)
      fix i assume "i < Suc k"
      show "status_at w uri (tick st + i) = Some (JStr ''pending'')"
      proof (cases i)
        case 0
        with sa True show ?thesis by simp
      next
        case (Suc j)
        with \<open>i < Suc k\<close> k(1) show ?thesis by (simp add: emit_def polled_def)
      qed
    qed
    moreover from k(2) have "status_at w uri (tick st + Suc k) = Some (JStr ''valid'')"
      by (simp add: emit_def polled_def)
    ultimately show ?thesis by blast
  next
    case False
    with 1(2) ok r s have "s = JStr ''valid''"
      by (auto split: if_splits)
    with sa have "(\<forall>i<0. status_at w uri (tick st + i) = Some (JStr ''pending''))
      \<and> status_at w uri (tick st + 0) = Some (JStr ''valid'')"
      by simp
    then show ?thesis by blast
  qed
  qed
qed

lemma wait_all_pending:
  assumes "\<forall>i. status_at w uri (tick st + i) = Some (JStr ''pending'')"
  shows "wait_for_challenge w domain uri path st = None"
proof (cases "wait_for_challenge w domain uri path st")
  case None
  then show ?thesis .
next
  case (Some y)
  from wait_returns_not_pending [OF Some] assms show ?thesis
    by blast
qed

text \<open>
  C5. While the status read is \<open>pending\<close> the loop sleeps two seconds and reads
  again, any number of times: after \<open>k\<close> such readings and one that shows \<open>valid\<close>
  the loop ends without error, the published file removed at that point (first
  part). When every reading shows \<open>pending\<close> the loop does not end (second part).
  And the loop ends without error only if \<open>valid\<close> is read after readings that all
  show \<open>pending\<close> (third part).
\<close>

theorem wait_for_challenge_pending_valid:
  "(\<forall>k. (\<forall>i<k. status_at w uri (tick st + i) = Some (JStr ''pending''))
        \<and> status_at w uri (tick st + k) = Some (JStr ''valid'')
        \<and> path \<in> dom (files st) \<longrightarrow>
        wait_for_challenge w domain uri path st =
          Some (Inr (), st\<lparr>tick := tick st + k + 1,
                            files := (files st)(path := None),
                            trace := trace st @ concat (replicate k [Sent (GET uri), Sleep 2])
                                     @ [Sent (GET uri), Info (domain @ '' verified!''), Removed path]\<rparr>))
   \<and> ((\<forall>i. status_at w uri (tick st + i) = Some (JStr ''pending'')) \<longrightarrow>
        wait_for_challenge w domain uri path st = None)
   \<and> (\<forall>u st'. wait_for_challenge w domain uri path st = Some (Inr u, st') \<longrightarrow>
        (\<exists>k. (\<forall>i<k. status_at w uri (tick st + i) = Some (JStr ''pending''))
           \<and> status_at w uri (tick st + k) = Some (JStr ''valid'')))"
proof (intro conjI allI impI)
  fix k
  assume "(\<forall>i<k. status_at w uri (tick st + i) = Some (JStr ''pending''))
        \<and> status_at w uri (tick st + k) = Some (JStr ''valid'')
        \<and> path \<in> dom (files st)"
  then show "wait_for_challenge w domain uri path st =
          Some (Inr (), st\<lparr>tick := tick st + k + 1,
                            files := (files st)(path := None),
                            trace := trace st @ concat (replicate k [Sent (GET uri), Sleep 2])
                                     @ [Sent (GET uri), Info (domain @ '' verified!''), Removed path]\<rparr>)"
    by (intro wait_pending_then_valid) blast+
next
  assume "\<forall>i. status_at w uri (tick st + i) = Some (JStr ''pending'')"
  then show "wait_for_challenge w domain uri path st = None"
    by (rule wait_all_pending)
next
  fix u st'
  assume "wait_for_challenge w domain uri path st = Some (Inr u, st')"
  from wait_success_after_valid [OF this]
  show "\<exists>k. (\<forall>i<k. status_at w uri (tick st + i) = Some (JStr ''pending''))
           \<and> status_at w uri (tick st + k) = Some (JStr ''valid'')"
    by simp
qed

section \<open>Facts about the certificate chain\<close>

text \<open>
  The output of \<open>b64encode\<close> has no whitespace and no hyphen: for \<open>textwrap.wrap\<close>
  it is one word, which \<open>wrap\<close> breaks every 64 characters.
\<close>

lemma b64_digit_alphabet: "b64_digit i \<in> set b64_alphabet"
proof -
  have "length b64_alphabet = 64"
    by (simp add: b64_alphabet_def)
  then have "i mod 64 < length b64_alphabet"
    by simp
  then show ?thesis
    unfolding b64_digit_def by (rule nth_mem)
qed

lemma b64encode_alphabet: "set (b64encode b) \<subseteq> insert CHR ''='' (set b64_alphabet)"
  by (induction b rule: b64encode.induct) (auto simp: Let_def b64_digit_alphabet)

lemma b64_alphabet_one_word: "list_all (\<lambda>c. \<not> isspace c \<and> c \<noteq> CHR ''-'') (CHR ''='' # b64_alphabet)"
  by code_simp

lemma b64encode_one_word:
  assumes "c \<in> set (b64encode b)"
  shows "\<not> isspace c \<and> c \<noteq> CHR ''-''"
proof -
  from assms b64encode_alphabet have "c \<in> set (CHR ''='' # b64_alphabet)"
    by auto
  with b64_alphabet_one_word show ?thesis
    by (simp only: list_all_iff) blast
qed


declare wrap.simps [simp del]

declare wait_for_challenge.simps [code]

lemma wrap_Nil: "wrap [] width = []"
  by (simp add: wrap.simps)

lemma wrap_Cons: "s \<noteq> [] \<Longrightarrow> 0 < width \<Longrightarrow> wrap s width = take width s # wrap (drop width s) width"
  by (subst wrap.simps) simp








text \<open>
  C10. With the chain flag set, when the response to the request for the certificate
  has no \<open>Link\<close> header, the run does not return the leaf: the iteration over
  \<open>None\<close> raises a \<open>TypeError\<close>, after the certificate was issued.
\<close>

theorem sign_certificate_no_link:
  assumes "send_signed_request w cfg (CA cfg @ ''/acme/new-cert'')
             (JObj [(''resource'', JStr ''new-cert''), (''csr'', JStr (b64 der))])
             [(201, None)] ''Error signing certificate: {code} {result}''
             (log_info ''Signing certificate...'' st) = (Inr (result, hs), st1)"
    and "openssl_req_der w = Some der"
    and "chain cfg"
    and "get_all ''Link'' hs = None"
  shows "sign_certificate w cfg st = (Inl TypeError, st1)"
  using assms by (simp add: sign_certificate_def cert_chain_def bind_def)

lemma get_all_None: "get_all name hs = None \<longleftrightarrow> (\<forall>kv \<in> set hs. lower (fst kv) \<noteq> lower name)"
  by (force simp: get_all_def Let_def filter_empty_conv)

section \<open>Example runs\<close>

lemma lower_names:
  "lower ''Location'' = ''location''" "lower ''location'' = ''location''"
  "lower ''Replay-Nonce'' = ''replay-nonce''" "lower ''Link'' = ''link''"
  by code_simp+

lemma decode_examples:
  "ascii_decode example_csr = Some example_csr"
  "ascii_decode csr_without_names = Some csr_without_names"
  "ascii_decode authz_text = Some authz_text"
  "ascii_decode selfcheck_body = Some selfcheck_body"
  "ascii_decode pending_body = Some pending_body"
  "ascii_decode valid_body = Some valid_body"
  "ascii_decode invalid_body = Some invalid_body"
  "ascii_decode [CHR 0xFF] = None"
  by code_simp+

lemma loads_examples:
  "example_loads authz_text = Some authz_json"
  "example_loads pending_body = Some (JObj [(''status'', JStr ''pending'')])"
  "example_loads valid_body = Some (JObj [(''status'', JStr ''valid'')])"
  "example_loads invalid_body = Some (JObj [(''status'', JStr ''invalid'')])"
  by code_simp+

lemma token_example: "sanitize_token ''tok/1'' = ''tok_1''"
  by code_simp

lemma strip_example: "strip selfcheck_body = ''tok_1.THUMB''"
  by code_simp

lemma order_example:
  "sort_key length [''example.com'', ''www.example.com''] = [''example.com'', ''www.example.com'']"
  by code_simp

lemma host_example: "last (split ''/'' ''https://ca.test'') = ''ca.test''"
  by code_simp

lemma find_domains_without_names: "find_domains csr_without_names = []"
  by code_simp

lemma pem_example:
  "pem ''CERT'' = ''-----BEGIN CERTIFICATE-----'' @ [newline] @ ''Q0VSVA=='' @ [newline] @ ''-----END CERTIFICATE-----'' @ [newline]"
  by (simp add: pem_def b64_digit_def b64_alphabet_def wrap_Cons wrap_Nil)

lemmas run_defs =
  get_crt_def register_account_def head_terms_def registration_payload_def
  send_signed_request_def signed_request_def fetch_nonce_def urlopen_def exchange_def bind_def
  openssl_sign_def deepcopy_def classify_def verify_domain_def publish_challenge_def
  select_challenge_def loads_utf8_def challenge_token_def challenge_uri_def path_join_def
  wellknown_url_def check_file_def download_failed_def write_file_def os_remove_def
  read_challenge_def log_info_def emit_def sign_certificate_def cert_chain_def
  example_world_simps example_config_simps start_simps scripted_def
  authz_json_def example_header_def get_header_def getheader_def get_all_def lower_names
  decode_examples loads_examples token_example strip_example order_example host_example
  startswith_def find_domains_example find_domains_without_names Let_def

text \<open>
  C1, at a run whose second reading of the challenge shows \<open>invalid\<close>: the run ends
  with the error that reports the body of the challenge, and the published file is
  still there; no file was removed.
\<close>

theorem invalid_status_leaves_file:
  "\<exists>st'. get_crt (example_world example_csr
                     (exchanges_until_poll selfcheck_body
                      @ [Response 200 pending_body [], Response 200 invalid_body []]))
             example_config start =
            Some (Inl (ValueError_challenge ''example.com'' (JObj [(''status'', JStr ''invalid'')])), st')
         \<and> files st' ''/var/www/challenges/tok_1'' = Some ''tok_1.THUMB''
         \<and> (\<forall>path. Removed path \<notin> set (trace st'))"
  apply (simp add: run_defs exchanges_until_poll_def del: example_dumps.simps)
  apply (subst wait_for_challenge.simps)
  apply (simp add: run_defs del: example_dumps.simps)
  apply (subst wait_for_challenge.simps)
  apply (simp add: run_defs del: example_dumps.simps)
  done

text \<open>
  C4, at a run where the published file is fetched with a body that is not UTF-8 (the
  byte 255): the run ends with the \<open>UnicodeDecodeError\<close> of \<open>decode\<close>, the published
  file is still there, and nothing was sent to the challenge.
\<close>

theorem undecodable_check_leaves_file:
  "\<exists>st'. get_crt (example_world example_csr (exchanges_until_poll [CHR 0xFF]))
             example_config start = Some (Inl UnicodeDecodeError, st')
         \<and> files st' ''/var/www/challenges/tok_1'' = Some ''tok_1.THUMB''
         \<and> (\<forall>path. Removed path \<notin> set (trace st'))
         \<and> (\<forall>body. Sent (POST ''https://ca.test/acme/challenge/1'' body) \<notin> set (trace st'))"
  by (simp add: run_defs exchanges_until_poll_def del: example_dumps.simps)

text \<open>
  C2 fails at a request without common name and without alternative names: no
  domain is found, and the run returns the certificate.
\<close>

theorem no_domains_counterexample:
  "find_domains csr_without_names = []
   \<and> (\<exists>st'. get_crt (example_world csr_without_names
                       [Response 200 [] [(''Location'', ''https://ca.test/terms/v1'')],
                        Response 200 ''{}'' [(''Replay-Nonce'', ''n1'')],
                        Response 201 ''{}'' [],
                        Response 200 ''{}'' [(''Replay-Nonce'', ''n2'')],
                        Response 201 ''CERT'' []])
               example_config start = Some (Inr (pem ''CERT''), st'))"
  by (simp add: run_defs del: example_dumps.simps)

text \<open>
  C2, amended. When no domain is found in the request, no domain is verified and no
  error is raised for it: after the registration the run goes on to the request for
  the certificate, and its result is the result of that request.
\<close>

theorem get_crt_no_domains:
  assumes "openssl_req_text w = Some out"
    and "utf8_decode w out = Some csr_dump"
    and "find_domains csr_dump = []"
  shows "get_crt w cfg st =
     (case register_account w cfg (log_info ''Parsing CSR...'' st) of
        (Inl e, st1) \<Rightarrow> Some (Inl e, st1)
      | (Inr r, st1) \<Rightarrow> Some (sign_certificate w cfg st1))"
  using assms by (simp add: get_crt_def split: prod.splits sum.splits)

theorem get_crt_no_domains_witness:
  "get_crt (example_world csr_without_names []) example_config start =
     (case register_account (example_world csr_without_names []) example_config
             (log_info ''Parsing CSR...'' start) of
        (Inl e, st1) \<Rightarrow> Some (Inl e, st1)
      | (Inr r, st1) \<Rightarrow> Some (sign_certificate (example_world csr_without_names []) example_config st1))"
  by (rule get_crt_no_domains [where out = csr_without_names and csr_dump = csr_without_names])
    (simp_all add: example_world_simps decode_examples find_domains_without_names)

theorem wait_for_challenge_pending_valid_witness:
  "map_option (\<lambda>(r, st'). (r, tick st', trace st', files st' ''/var/www/challenges/tok_1''))
     (wait_for_challenge
        (example_world example_csr
           [Response 200 pending_body [], Response 200 pending_body [], Response 200 valid_body []])
        ''example.com'' ''https://ca.test/acme/challenge/1'' ''/var/www/challenges/tok_1'' published)
     = Some (Inr (), 3,
             [Sent (GET ''https://ca.test/acme/challenge/1''), Sleep 2,
              Sent (GET ''https://ca.test/acme/challenge/1''), Sleep 2,
              Sent (GET ''https://ca.test/acme/challenge/1''), Info ''example.com verified!'',
              Removed ''/var/www/challenges/tok_1''],
             None)
   \<and> wait_for_challenge
        ((example_world example_csr [])\<lparr>net := (\<lambda>n r. Response 200 pending_body [])\<rparr>)
        ''example.com'' ''https://ca.test/acme/challenge/1'' ''/var/www/challenges/tok_1'' published
     = None"
proof -
  let ?W = "example_world example_csr
              [Response 200 pending_body [], Response 200 pending_body [], Response 200 valid_body []]"
  let ?V = "(example_world example_csr [])\<lparr>net := (\<lambda>n r. Response 200 pending_body [])\<rparr>"
  let ?uri = "''https://ca.test/acme/challenge/1''"
  let ?path = "''/var/www/challenges/tok_1''"
  have s: "status_at ?W ?uri 0 = Some (JStr ''pending'')" "status_at ?W ?uri 1 = Some (JStr ''pending'')"
    "status_at ?W ?uri 2 = Some (JStr ''valid'')"
    by (simp_all add: status_at_def body_at_def loads_utf8_def example_world_simps scripted_def
          decode_examples loads_examples)
  have "\<forall>i<2. status_at ?W ?uri (tick published + i) = Some (JStr ''pending'')"
    using s(1,2) by (simp add: published_def start_def less_Suc_eq numeral_2_eq_2)
  moreover have "status_at ?W ?uri (tick published + 2) = Some (JStr ''valid'')"
    using s(3) by (simp add: published_def start_def numeral_2_eq_2)
  moreover have "?path \<in> dom (files published)"
    by (simp add: published_def)
  ultimately have "wait_for_challenge ?W ''example.com'' ?uri ?path published =
          Some (Inr (), published\<lparr>tick := tick published + 2 + 1,
                            files := (files published)(?path := None),
                            trace := trace published @ concat (replicate 2 [Sent (GET ?uri), Sleep 2])
                                     @ [Sent (GET ?uri), Info (''example.com'' @ '' verified!''), Removed ?path]\<rparr>)"
    using wait_for_challenge_pending_valid [of ?W ?uri published ?path "''example.com''"]
    by blast
  then have a: "map_option (\<lambda>(r, st'). (r, tick st', trace st', files st' ?path))
     (wait_for_challenge ?W ''example.com'' ?uri ?path published)
     = Some (Inr (), 3,
             [Sent (GET ?uri), Sleep 2, Sent (GET ?uri), Sleep 2,
              Sent (GET ?uri), Info ''example.com verified!'', Removed ?path],
             None)"
    by (simp add: published_def start_def numeral_2_eq_2)
  have "\<forall>i. status_at ?V ?uri (tick published + i) = Some (JStr ''pending'')"
    by (simp add: status_at_def body_at_def loads_utf8_def example_world_simps
          decode_examples loads_examples)
  then have b: "wait_for_challenge ?V ''example.com'' ?uri ?path published = None"
    using wait_for_challenge_pending_valid [of ?V ?uri published ?path "''example.com''"]
    by blast
  from a b show ?thesis by simp
qed

text \<open>
  The check of the published file: it succeeds exactly when the address is answered
  with a body that decodes to the key authorization, whitespace around it aside; an
  \<open>IOError\<close> of the fetch and a content that differs remove the published file and
  raise the \<open>ValueError\<close> of line 126.
\<close>

lemma check_file_succeeds_iff:
  "fst (check_file w domain token keyauthorization path st) = Inr () \<longleftrightarrow>
   (\<exists>code body hs content.
       net w (tick st) (GET (wellknown_url domain token)) = Response code body hs
     \<and> utf8_decode w body = Some content
     \<and> strip content = keyauthorization)"
  by (cases "net w (tick st) (GET (wellknown_url domain token))")
    (auto simp: check_file_def exchange_def download_failed_def bind_def os_remove_def
      split: option.splits)

lemma check_file_cleans_up:
  assumes "path \<in> dom (files st)"
    and "net w (tick st) (GET (wellknown_url domain token)) = outcome"
    and "(\<exists>code body hs. outcome = HTTPError code body hs)
         \<or> (\<exists>reason. outcome = URLError reason)
         \<or> outcome = OtherIOError
         \<or> (\<exists>code body hs content. outcome = Response code body hs
               \<and> utf8_decode w body = Some content \<and> strip content \<noteq> keyauthorization)"
  shows "check_file w domain token keyauthorization path st =
         (Inl (ValueError_download path (wellknown_url domain token)),
          st\<lparr>tick := Suc (tick st),
              files := (files st)(path := None),
              trace := trace st @ [Sent (GET (wellknown_url domain token)), Removed path]\<rparr>)"
  using assms
  by (auto simp: check_file_def exchange_def download_failed_def bind_def os_remove_def emit_def)

lemma strip_examples:
  "strip ''abc.def '' = ''abc.def''" "strip ''abc.deg'' \<noteq> ''abc.def''"
  by code_simp+


lemma example_new_cert:
  assumes "CA cfg = ''https://ca.test''"
  shows "\<exists>st1. send_signed_request
           (example_world csr (Response 200 ''{}'' [(''Replay-Nonce'', ''n1'')] # Response 201 ''CERT'' hs # rest))
           cfg (CA cfg @ ''/acme/new-cert'') new_cert_payload
           [(201, None)] ''Error signing certificate: {code} {result}''
           (log_info ''Signing certificate...'' start) = (Inr (''CERT'', hs), st1)
         \<and> tick st1 = 2"
  using assms
  by (simp add: send_signed_request_def signed_request_def fetch_nonce_def urlopen_def exchange_def
        bind_def openssl_sign_def deepcopy_def classify_def log_info_def emit_def
        example_world_simps start_simps scripted_def example_header_def get_header_def lower_names
        Let_def del: example_dumps.simps)


theorem sign_certificate_no_link_witness:
  "fst (sign_certificate
          (example_world example_csr
             [Response 200 ''{}'' [(''Replay-Nonce'', ''n1'')], Response 201 ''CERT'' []])
          chain_config start) = Inl TypeError"
proof -
  let ?W = "example_world example_csr
             [Response 200 ''{}'' [(''Replay-Nonce'', ''n1'')], Response 201 ''CERT'' []]"
  have der: "openssl_req_der ?W = Some ''DER''"
    by (simp add: example_world_simps)
  obtain st1 where
    s: "send_signed_request ?W chain_config (CA chain_config @ ''/acme/new-cert'')
           (JObj [(''resource'', JStr ''new-cert''), (''csr'', JStr (b64 ''DER''))])
           [(201, None)] ''Error signing certificate: {code} {result}''
           (log_info ''Signing certificate...'' start) = (Inr (''CERT'', []), st1)"
    using example_new_cert [of chain_config example_csr "[]" "[]"]
    by (auto simp: chain_config_def example_config_simps new_cert_payload_def)
  have "chain chain_config"
    by (simp add: chain_config_def)
  moreover have "get_all ''Link'' [] = None"
    by (simp add: get_all_def)
  ultimately have "sign_certificate ?W chain_config start = (Inl TypeError, st1)"
    by (rule sign_certificate_no_link [OF s der])
  then show ?thesis by simp
qed

end
